theory Spec2Isabelle
  imports Main "HOL-Library.AList"
begin

section \<open>Values and exceptions\<close>

text \<open>
  The payloads handled by \<^verbatim>\<open>bot_functions/main.py\<close> are decoded JSON documents: Python
  \<^verbatim>\<open>None\<close>, booleans, integers, strings, lists and dictionaries. A dictionary keeps
  its insertion order (the code reads \<^verbatim>\<open>tuple(update.items())[1]\<close>), so it is an association
  list; its keys are strings and are pairwise distinct. A Python string is a sequence of
  code points; here every \<^typ>\<open>char\<close> stands for one code point below 256. JSON numbers
  with a fraction are left out of the model.
\<close>

datatype json =
    JNull
  | JBool bool
  | JInt int
  | JStr string
  | JList "json list"
  | JDict "(string \<times> json) list"

text \<open>
  The exceptions the code can raise, by class. \<open>RequestException\<close> stands for whatever
  the HTTP library raises. \<open>MalformedPayload\<close> and \<open>MissingCredential\<close> are the error
  kinds named in section 7 of the specification; no statement of the source raises them.
\<close>

datatype error =
    IndexError
  | KeyError
  | AttributeError
  | TypeError
  | RequestException
  | MalformedPayload
  | MissingCredential

definition bindE :: "error + 'a \<Rightarrow> ('a \<Rightarrow> error + 'b) \<Rightarrow> error + 'b" where
  "bindE m f = (case m of Inl e \<Rightarrow> Inl e | Inr x \<Rightarrow> f x)"

subsection \<open>The network\<close>

text \<open>
  The only effect of the code is \<^verbatim>\<open>requests.post(url, json=data).json()\<close>. The state is
  the list of requests posted so far; the remote service is a parameter that answers a
  request, given the earlier ones, with a decoded JSON document or an exception.
\<close>

type_synonym request = "string \<times> json"
type_synonym net = "request list"
type_synonym remote = "net \<Rightarrow> request \<Rightarrow> error + json"
type_synonym 'a io = "net \<Rightarrow> (error + 'a) \<times> net"

definition liftE :: "error + 'a \<Rightarrow> 'a io" where
  "liftE r w = (r, w)"

definition bindS :: "'a io \<Rightarrow> ('a \<Rightarrow> 'b io) \<Rightarrow> 'b io" where
  "bindS m f w = (case m w of (Inl e, w') \<Rightarrow> (Inl e, w') | (Inr x, w') \<Rightarrow> f x w')"

definition requests_post :: "remote \<Rightarrow> string \<Rightarrow> json \<Rightarrow> json io" where
  "requests_post srv url data w = (srv w (url, data), w @ [(url, data)])"

subsection \<open>Python operations on decoded JSON\<close>

text \<open>\<^verbatim>\<open>x.items()\<close>: only a dictionary has the method.\<close>

definition py_items :: "json \<Rightarrow> error + (string \<times> json) list" where
  "py_items x = (case x of JDict d \<Rightarrow> Inr d | _ \<Rightarrow> Inl AttributeError)"

text \<open>\<^verbatim>\<open>t[i]\<close> on a tuple, for an index \<open>i \<ge> 0\<close>.\<close>

definition tuple_index :: "'a list \<Rightarrow> nat \<Rightarrow> error + 'a" where
  "tuple_index t i = (if i < length t then Inr (t ! i) else Inl IndexError)"

text \<open>\<^verbatim>\<open>x.get(k, dflt)\<close>: only a dictionary has the method.\<close>

definition py_get :: "json \<Rightarrow> string \<Rightarrow> json \<Rightarrow> error + json" where
  "py_get x k dflt =
     (case x of
        JDict d \<Rightarrow> Inr (case map_of d k of None \<Rightarrow> dflt | Some v \<Rightarrow> v)
      | _ \<Rightarrow> Inl AttributeError)"

text \<open>\<^verbatim>\<open>x[k]\<close> for a string key \<open>k\<close>.\<close>

definition py_getitem :: "json \<Rightarrow> string \<Rightarrow> error + json" where
  "py_getitem x k =
     (case x of
        JDict d \<Rightarrow> (case map_of d k of None \<Rightarrow> Inl KeyError | Some v \<Rightarrow> Inr v)
      | _ \<Rightarrow> Inl TypeError)"

text \<open>
  \<^verbatim>\<open>x[0]\<close>: the first element of a list, the first character of a string; a dictionary
  of string keys has no key \<open>0\<close>.
\<close>

definition py_index0 :: "json \<Rightarrow> error + json" where
  "py_index0 x =
     (case x of
        JList [] \<Rightarrow> Inl IndexError
      | JList (v # _) \<Rightarrow> Inr v
      | JStr [] \<Rightarrow> Inl IndexError
      | JStr (c # _) \<Rightarrow> Inr (JStr [c])
      | JDict _ \<Rightarrow> Inl KeyError
      | _ \<Rightarrow> Inl TypeError)"

text \<open>The integer an operand of \<^verbatim>\<open>+\<close> with an \<^verbatim>\<open>int\<close> stands for (\<^verbatim>\<open>True\<close> is 1).\<close>

definition py_int :: "json \<Rightarrow> error + int" where
  "py_int x =
     (case x of
        JInt n \<Rightarrow> Inr n
      | JBool b \<Rightarrow> Inr (if b then 1 else 0)
      | _ \<Rightarrow> Inl TypeError)"

text \<open>
  Slicing \<^verbatim>\<open>s[a:b]\<close> and \<^verbatim>\<open>s[a:]\<close>: a negative index counts from the end, and both
  indices are clipped to the sequence.
\<close>

definition adjust_index :: "nat \<Rightarrow> int \<Rightarrow> nat" where
  "adjust_index n i =
     (if i < 0 then (if i + int n < 0 then 0 else nat (i + int n))
      else (if int n < i then n else nat i))"

definition slice :: "'a list \<Rightarrow> int \<Rightarrow> int option \<Rightarrow> 'a list" where
  "slice s a b =
     (let n = length s;
          lo = adjust_index n a;
          hi = (case b of None \<Rightarrow> n | Some j \<Rightarrow> adjust_index n j)
      in take (hi - lo) (drop lo s))"

text \<open>
  A dictionary rejects a slice as key with TypeError up to Python 3.11 (later versions
  raise KeyError); no payload of the service has a dictionary as text.
\<close>

definition py_slice :: "json \<Rightarrow> int \<Rightarrow> int option \<Rightarrow> error + json" where
  "py_slice x a b =
     (case x of
        JStr s \<Rightarrow> Inr (JStr (slice s a b))
      | JList l \<Rightarrow> Inr (JList (slice l a b))
      | _ \<Rightarrow> Inl TypeError)"

text \<open>\<^verbatim>\<open>str.isspace\<close> on the code points below 256, and \<^verbatim>\<open>str.strip()\<close>.\<close>

definition isspace :: "char \<Rightarrow> bool" where
  "isspace c =
     (let n = (of_char c :: nat)
      in (9 \<le> n \<and> n \<le> 13) \<or> (28 \<le> n \<and> n \<le> 32) \<or> n = 133 \<or> n = 160)"

definition strip :: "string \<Rightarrow> string" where
  "strip s = rev (dropWhile isspace (rev (dropWhile isspace s)))"

definition py_strip :: "json \<Rightarrow> error + json" where
  "py_strip x = (case x of JStr s \<Rightarrow> Inr (JStr (strip s)) | _ \<Rightarrow> Inl AttributeError)"

text \<open>
  A dictionary display \<^verbatim>\<open>{k1: v1, k2: v2, ...}\<close>: a key written twice keeps the place
  of its first occurrence and the value of its last.
\<close>

definition dict_display :: "(string \<times> json) list \<Rightarrow> (string \<times> json) list" where
  "dict_display kvs = foldl (\<lambda>d (k, v). AList.update k v d) [] kvs"

section \<open>class Bot\<close>

record Bot =
  bot_token :: "string option"
  base_url :: string

text \<open>The class attribute \<^verbatim>\<open>BOT_TOKEN = os.environ.get("TG_BOT_TOKEN")\<close>.\<close>

definition BOT_TOKEN :: "(string \<rightharpoonup> string) \<Rightarrow> string option" where
  "BOT_TOKEN environ = environ ''TG_BOT_TOKEN''"

text \<open>\<^verbatim>\<open>f"{token}"\<close>: a string as it is, \<^verbatim>\<open>None\<close> as the word None.\<close>

definition format_token :: "string option \<Rightarrow> string" where
  "format_token token = (case token of None \<Rightarrow> ''None'' | Some t \<Rightarrow> t)"

definition Bot_init :: "string option \<Rightarrow> Bot io" where
  "Bot_init token =
     liftE (Inr \<lparr>bot_token = token,
                 base_url = ''https://api.telegram.org/bot'' @ format_token token\<rparr>)"

text \<open>\<^verbatim>\<open>Bot()\<close>: the parameter \<open>token\<close> takes its default, \<open>BOT_TOKEN\<close>.\<close>

definition Bot_default :: "(string \<rightharpoonup> string) \<Rightarrow> Bot io" where
  "Bot_default environ = Bot_init (BOT_TOKEN environ)"

section \<open>class SentChat\<close>

record SentChat = Bot +
  sent_update_type :: string
  sent_from_id :: json
  sent_chat_id :: json
  sent_message_id :: json
  sent_text :: json

definition SentChat_init :: "string option \<Rightarrow> json \<Rightarrow> SentChat io" where
  "SentChat_init token sent_msg =
     bindS (Bot_init token) (\<lambda>self. liftE (
       bindE (py_items sent_msg) (\<lambda>update_tuple.
       bindE (tuple_index update_tuple 1) (\<lambda>kind.
       bindE (bindE (py_get (snd kind) ''from'' (JDict [])) (\<lambda>f. py_get f ''id'' JNull)) (\<lambda>v_from_id.
       bindE (bindE (py_get (snd kind) ''chat'' (JDict [])) (\<lambda>c. py_get c ''id'' JNull)) (\<lambda>v_chat_id.
       bindE (py_get (snd kind) ''message_id'' JNull) (\<lambda>v_message_id.
       bindE (py_get (snd kind) ''message_id'' JNull) (\<lambda>v_sent_text.
         Inr \<lparr>bot_token = bot_token self, base_url = base_url self,
              sent_update_type = fst kind,
              sent_from_id = v_from_id,
              sent_chat_id = v_chat_id,
              sent_message_id = v_message_id,
              sent_text = v_sent_text\<rparr>))))))))"

section \<open>Bot.send\_message\<close>

text \<open>
  \<open>dumps\<close> stands for \<^verbatim>\<open>json.dumps\<close> of the standard library, \<open>srv\<close> for the remote
  service. The dictionary display of the source writes the key
  \<^verbatim>\<open>allow_sending_without_reply\<close> twice.
\<close>

definition send_message ::
  "(json \<Rightarrow> string) \<Rightarrow> remote \<Rightarrow> Bot \<Rightarrow> json \<Rightarrow> json \<Rightarrow> json \<Rightarrow> json \<Rightarrow> json \<Rightarrow>
   bool \<Rightarrow> bool \<Rightarrow> bool \<Rightarrow> json \<Rightarrow> bool \<Rightarrow> json \<Rightarrow> SentChat io" where
  "send_message dumps srv self chat_id txt message_thread_id parse_mode entities
     disable_web_page_preview disable_notification protect_content reply_to_message_id
     allow_sending_without_reply reply_markup =
     (let url = base_url self @ ''/sendMessage'';
          data = dict_display
            [(''chat_id'', chat_id),
             (''parse_mode'', if parse_mode \<noteq> JNull then parse_mode else JStr ''HTML''),
             (''text'', txt),
             (''allow_sending_without_reply'', JBool True),
             (''disable_web_page_preview'', JBool disable_web_page_preview),
             (''reply_to_message_id'', reply_to_message_id),
             (''allow_sending_without_reply'', JBool allow_sending_without_reply),
             (''reply_markup'', JStr (dumps reply_markup)),
             (''disable_notification'', JBool disable_notification),
             (''protect_content'', JBool protect_content),
             (''message_thread_id'', message_thread_id),
             (''entities'', JStr (dumps entities))]
      in bindS (requests_post srv url (JDict data))
           (\<lambda>response. SentChat_init (bot_token self) response))"

section \<open>class UpdateChat\<close>

record UpdateChat = Bot +
  update_type :: string
  from_id :: json
  text' :: json
  message_type :: json
  entities :: json
  chat_id :: json
  message_id :: json

definition UpdateChat_init :: "json \<Rightarrow> string option \<Rightarrow> UpdateChat io" where
  "UpdateChat_init update token =
     bindS (Bot_init token) (\<lambda>self. liftE (
       bindE (py_items update) (\<lambda>update_tuple.
       bindE (tuple_index update_tuple 1) (\<lambda>kind.
       bindE (bindE (py_get (snd kind) ''from'' (JDict [])) (\<lambda>f. py_get f ''id'' JNull)) (\<lambda>v_from_id.
       bindE (py_get (snd kind) ''text'' JNull) (\<lambda>v_text.
       bindE (bindE (bindE (py_get (snd kind) ''entities'' (JList [JDict []])) py_index0)
                (\<lambda>e. py_get e ''type'' (JStr ''text''))) (\<lambda>v_message_type.
       bindE (py_get (snd kind) ''entities'' (JList [JDict []])) (\<lambda>v_entities.
       bindE (if fst kind = ''callback_query''
              then bindE (bindE (bindE (py_getitem (snd kind) ''message'')
                             (\<lambda>m. py_get m ''chat'' (JDict []))) (\<lambda>c. py_get c ''id'' JNull)) (\<lambda>v_chat_id.
                   bindE (bindE (py_getitem (snd kind) ''message'')
                             (\<lambda>m. py_get m ''message_id'' JNull)) (\<lambda>v_message_id.
                     Inr (v_chat_id, v_message_id)))
              else bindE (bindE (py_get (snd kind) ''chat'' (JDict [])) (\<lambda>c. py_get c ''id'' JNull)) (\<lambda>v_chat_id.
                   bindE (py_get (snd kind) ''message_id'' JNull) (\<lambda>v_message_id.
                     Inr (v_chat_id, v_message_id)))) (\<lambda>ids.
         Inr \<lparr>bot_token = bot_token self, base_url = base_url self,
              update_type = fst kind,
              from_id = v_from_id,
              text' = v_text,
              message_type = v_message_type,
              entities = v_entities,
              chat_id = fst ids,
              message_id = snd ids\<rparr>)))))))))"

text \<open>\<^verbatim>\<open>Bot.validate_update\<close>.\<close>

definition validate_update :: "Bot \<Rightarrow> json \<Rightarrow> UpdateChat io" where
  "validate_update self update = UpdateChat_init update (bot_token self)"

text \<open>
  \<^verbatim>\<open>UpdateChat.send_message(text)\<close> calls \<^verbatim>\<open>Bot.send_message(self.chat_id, text)\<close>; every
  other parameter takes its default.
\<close>

definition UpdateChat_send_message ::
  "(json \<Rightarrow> string) \<Rightarrow> remote \<Rightarrow> UpdateChat \<Rightarrow> json \<Rightarrow> SentChat io" where
  "UpdateChat_send_message dumps srv self txt =
     send_message dumps srv (Bot.truncate self) (chat_id self) txt
       JNull (JStr ''HTML'') (JDict []) False False False JNull False (JDict [])"

subsection \<open>UpdateChat.get\_command\<close>

text \<open>
  The result is \<^verbatim>\<open>None\<close>, the command name, or the pair of the name and the argument.
\<close>

datatype command = CNone | CName json | CPair json json

definition get_command :: "UpdateChat \<Rightarrow> bool \<Rightarrow> bool \<Rightarrow> error + command" where
  "get_command self argument only_start =
     (if message_type self \<noteq> JStr ''bot_command'' then Inr CNone
      else
        bindE (bindE (bindE (py_index0 (entities self)) (\<lambda>e. py_getitem e ''offset'')) py_int)
          (\<lambda>offset. let start = offset + 1 in
        bindE (bindE (bindE (py_index0 (entities self)) (\<lambda>e. py_getitem e ''length'')) py_int)
          (\<lambda>len. let stop = start + len - 1 in
          if only_start then
            (if start = 1 then
               (if \<not> argument then
                  bindE (py_slice (text' self) start (Some stop)) (\<lambda>name. Inr (CName name))
                else
                  bindE (py_slice (text' self) start (Some stop)) (\<lambda>name.
                  bindE (bindE (py_slice (text' self) stop None) py_strip) (\<lambda>arg.
                    Inr (CPair name arg))))
             else Inr CNone)
          else bindE (py_slice (text' self) start (Some stop)) (\<lambda>name. Inr (CName name)))))"

section \<open>Notions used to state the properties\<close>

text \<open>A string without surrounding whitespace.\<close>

definition trimmed :: "string \<Rightarrow> bool" where
  "trimmed s = (s = [] \<or> (\<not> isspace (hd s) \<and> \<not> isspace (last s)))"

text \<open>
  The value found in a document by following a path of keys, \<^verbatim>\<open>None\<close> where a key is
  missing: what the specification calls the nested \<^verbatim>\<open>chat.id\<close>, \<^verbatim>\<open>from.id\<close> and so on.
\<close>

fun nested :: "json \<Rightarrow> string list \<Rightarrow> json" where
  "nested x [] = x"
| "nested x (k # ks) =
     (case x of
        JDict d \<Rightarrow> (case map_of d k of None \<Rightarrow> JNull | Some v \<Rightarrow> nested v ks)
      | _ \<Rightarrow> JNull)"

text \<open>
  The shape of a kind payload that the constructor reads without raising: a dictionary in
  which \<^verbatim>\<open>from\<close> and \<^verbatim>\<open>chat\<close>, when present, are dictionaries, and \<^verbatim>\<open>entities\<close>, when
  present, is a non-empty list whose first element is a dictionary.
\<close>

definition is_dict :: "json \<Rightarrow> bool" where
  "is_dict x = (case x of JDict _ \<Rightarrow> True | _ \<Rightarrow> False)"

definition first_is_dict :: "json \<Rightarrow> bool" where
  "first_is_dict x = (case x of JList (e # _) \<Rightarrow> is_dict e | _ \<Rightarrow> False)"

definition kind_payload_ok :: "json \<Rightarrow> bool" where
  "kind_payload_ok v =
     (case v of
        JDict d \<Rightarrow>
          (case map_of d ''from'' of None \<Rightarrow> True | Some f \<Rightarrow> is_dict f)
        \<and> (case map_of d ''entities'' of None \<Rightarrow> True | Some es \<Rightarrow> first_is_dict es)
        \<and> (case map_of d ''chat'' of None \<Rightarrow> True | Some ch \<Rightarrow> is_dict ch)
      | _ \<Rightarrow> False)"

text \<open>
  The same for a kind payload of kind \<^verbatim>\<open>callback_query\<close>, where the constructor reads
  \<^verbatim>\<open>["message"]\<close> and the \<^verbatim>\<open>chat\<close> inside it, and for either kind by its key.
\<close>

definition message_ok :: "json \<Rightarrow> bool" where
  "message_ok m =
     (case m of
        JDict md \<Rightarrow> (case map_of md ''chat'' of None \<Rightarrow> True | Some ch \<Rightarrow> is_dict ch)
      | _ \<Rightarrow> False)"

definition callback_payload_ok :: "json \<Rightarrow> bool" where
  "callback_payload_ok v =
     (case v of
        JDict d \<Rightarrow>
          (case map_of d ''from'' of None \<Rightarrow> True | Some f \<Rightarrow> is_dict f)
        \<and> (case map_of d ''entities'' of None \<Rightarrow> True | Some es \<Rightarrow> first_is_dict es)
        \<and> (case map_of d ''message'' of None \<Rightarrow> False | Some m \<Rightarrow> message_ok m)
      | _ \<Rightarrow> False)"

definition payload_ok :: "string \<Rightarrow> json \<Rightarrow> bool" where
  "payload_ok k v =
     (if k = ''callback_query'' then callback_payload_ok v else kind_payload_ok v)"

text \<open>
  The shape of a response of which \<^verbatim>\<open>SentChat\<close> builds a handle: a dictionary of at
  least two entries whose second value is a dictionary in which \<^verbatim>\<open>from\<close> and \<^verbatim>\<open>chat\<close>,
  when present, are dictionaries.
\<close>

definition sent_payload_ok :: "json \<Rightarrow> bool" where
  "sent_payload_ok v =
     (case v of
        JDict d \<Rightarrow>
          (case map_of d ''from'' of None \<Rightarrow> True | Some f \<Rightarrow> is_dict f)
        \<and> (case map_of d ''chat'' of None \<Rightarrow> True | Some ch \<Rightarrow> is_dict ch)
      | _ \<Rightarrow> False)"

definition response_ok :: "json \<Rightarrow> bool" where
  "response_ok sent_msg =
     (case sent_msg of
        JDict kvs \<Rightarrow> 1 < length kvs \<and> sent_payload_ok (snd (kvs ! 1))
      | _ \<Rightarrow> False)"

section \<open>Auxiliary facts\<close>

lemmas run_defs = UpdateChat_init_def SentChat_init_def bindS_def liftE_def Bot_init_def
  format_token_def bindE_def py_items_def tuple_index_def py_get_def py_getitem_def py_index0_def

lemma bindE_Inr_iff: "bindE m f = Inr y \<longleftrightarrow> (\<exists>x. m = Inr x \<and> f x = Inr y)"
  by (cases m) (simp_all add: bindE_def)

lemma py_get_Inr_iff:
  "py_get x k dflt = Inr y \<longleftrightarrow>
     (\<exists>d. x = JDict d \<and> y = (case map_of d k of None \<Rightarrow> dflt | Some v \<Rightarrow> v))"
  by (cases x) (auto simp: py_get_def)

lemma py_getitem_Inr_iff:
  "py_getitem x k = Inr y \<longleftrightarrow> (\<exists>d. x = JDict d \<and> map_of d k = Some y)"
  by (cases x) (auto simp: py_getitem_def split: option.splits)

subsection \<open>What a constructed update holds\<close>

lemma UpdateChat_init_fields:
  assumes "UpdateChat_init update token w = (Inr c, w')"
  shows "\<exists>kvs k v. update = JDict kvs \<and> 1 < length kvs \<and> kvs ! 1 = (k, v) \<and> w' = w
     \<and> update_type c = k
     \<and> (\<exists>f. py_get v ''from'' (JDict []) = Inr f \<and> py_get f ''id'' JNull = Inr (from_id c))
     \<and> py_get v ''text'' JNull = Inr (text' c)
     \<and> py_get v ''entities'' (JList [JDict []]) = Inr (entities c)
     \<and> (\<exists>e. py_index0 (entities c) = Inr e
            \<and> py_get e ''type'' (JStr ''text'') = Inr (message_type c))
     \<and> (k = ''callback_query'' \<longrightarrow>
          (\<exists>m. py_getitem v ''message'' = Inr m
             \<and> (\<exists>ch. py_get m ''chat'' (JDict []) = Inr ch
                    \<and> py_get ch ''id'' JNull = Inr (chat_id c))
             \<and> py_get m ''message_id'' JNull = Inr (message_id c)))
     \<and> (k \<noteq> ''callback_query'' \<longrightarrow>
          (\<exists>ch. py_get v ''chat'' (JDict []) = Inr ch
                \<and> py_get ch ''id'' JNull = Inr (chat_id c))
          \<and> py_get v ''message_id'' JNull = Inr (message_id c))"
proof -
  from assms obtain kvs where u: "update = JDict kvs"
    by (cases update)
      (auto simp: UpdateChat_init_def bindS_def liftE_def Bot_init_def bindE_def py_items_def)
  from assms u have len: "1 < length kvs"
    by (auto simp: UpdateChat_init_def bindS_def liftE_def Bot_init_def bindE_def py_items_def
        tuple_index_def split: if_splits)
  obtain k v where kv: "kvs ! 1 = (k, v)"
    by (cases "kvs ! 1")
  from assms u len kv show ?thesis
    apply (simp add: UpdateChat_init_def bindS_def liftE_def Bot_init_def py_items_def
        tuple_index_def)
    apply (simp add: bindE_def [of "Inr _"])
    apply (auto simp: bindE_Inr_iff split: if_splits)
    done
qed

lemma UpdateChat_init_dict:
  assumes "UpdateChat_init (JDict kvs) token w = (Inr c, w')" and "kvs ! 1 = (k, JDict d)"
  shows "text' c = (case map_of d ''text'' of None \<Rightarrow> JNull | Some v \<Rightarrow> v)"
    and "entities c = (case map_of d ''entities'' of None \<Rightarrow> JList [JDict []] | Some v \<Rightarrow> v)"
    and "\<exists>e. py_index0 (entities c) = Inr e
           \<and> py_get e ''type'' (JStr ''text'') = Inr (message_type c)"
  using UpdateChat_init_fields [OF assms(1)] assms(2)
  by (auto simp: py_get_def)

lemma UpdateChat_init_entity:
  assumes "UpdateChat_init (JDict kvs) token w = (Inr c, w')" and "kvs ! 1 = (k, JDict d)"
    and "map_of d ''entities'' = Some (JList (JDict e # es))"
    and "map_of e ''type'' = Some ty"
  shows "entities c = JList (JDict e # es)" and "message_type c = ty"
  using UpdateChat_init_dict [OF assms(1,2)] assms(3,4)
  by (auto simp: py_get_def py_index0_def)

subsection \<open>get\_command on a command entity with integer offset and length\<close>

lemma get_command_entity:
  assumes "message_type c = JStr ''bot_command''"
    and "entities c = JList (JDict e # es)"
    and "map_of e ''offset'' = Some (JInt off)"
    and "map_of e ''length'' = Some (JInt len)"
  shows "get_command c argument only_start =
     (if only_start then
        (if off = 0 then
           (if \<not> argument then
              bindE (py_slice (text' c) 1 (Some len)) (\<lambda>name. Inr (CName name))
            else
              bindE (py_slice (text' c) 1 (Some len)) (\<lambda>name.
              bindE (bindE (py_slice (text' c) len None) py_strip) (\<lambda>arg.
                Inr (CPair name arg))))
         else Inr CNone)
      else bindE (py_slice (text' c) (off + 1) (Some (off + len))) (\<lambda>name. Inr (CName name)))"
  using assms
  by (simp add: get_command_def bindE_def py_index0_def py_getitem_def py_int_def Let_def)

subsection \<open>Slices and strip\<close>

lemma adjust_index_nat: "adjust_index n (int i) = min n i"
  by (simp add: adjust_index_def)

lemma slice_nat:
  "slice s (int i) (Some (int j)) =
     take (min (length s) j - min (length s) i) (drop (min (length s) i) s)"
  by (simp add: slice_def Let_def adjust_index_nat)

lemma slice_nat_from: "slice s (int i) None = drop i s"
  by (simp add: slice_def Let_def adjust_index_nat min_def)

lemma slice_command_name:
  "slice (pre @ c # name @ rest) (int (length pre) + 1)
     (Some (int (length pre) + (int (length name) + 1))) = name"
proof -
  have a: "int (length pre) + 1 = int (Suc (length pre))"
    and b: "int (length pre) + (int (length name) + 1) = int (Suc (length pre + length name))"
    by simp_all
  show ?thesis
    unfolding a b slice_nat by (simp add: min_def)
qed

lemma slice_leading_name:
  "slice (c # name @ rest) 1 (Some (int (length name) + 1)) = name"
  using slice_command_name [of "[]" c name rest] by simp

lemma slice_after_name:
  "slice (c # name @ rest) (int (length name) + 1) None = rest"
proof -
  have a: "int (length name) + 1 = int (Suc (length name))" by simp
  show ?thesis unfolding a slice_nat_from by simp
qed

lemma strip_all_space:
  assumes "\<forall>c\<in>set s. isspace c"
  shows "strip s = []"
proof -
  from assms have d: "dropWhile isspace s = []"
    by (simp add: dropWhile_eq_Nil_conv)
  show ?thesis unfolding strip_def d by simp
qed

lemma strip_leading_space: "isspace c \<Longrightarrow> strip (c # s) = strip s"
  by (simp add: strip_def)

lemma strip_trimmed:
  assumes "s \<noteq> []" and "\<not> isspace (hd s)" and "\<not> isspace (last s)"
  shows "strip s = s"
proof -
  from assms have "dropWhile isspace s = s"
    by (cases s) simp_all
  moreover from assms have "dropWhile isspace (rev s) = rev s"
    by (cases "rev s") (simp_all add: hd_rev [symmetric])
  ultimately show ?thesis by (simp add: strip_def)
qed

lemma strip_of_trimmed: "trimmed s \<Longrightarrow> strip s = s"
proof (cases "s = []")
  case True
  then show ?thesis by (simp add: strip_def)
next
  case False
  assume "trimmed s"
  with False show ?thesis by (simp add: trimmed_def strip_trimmed)
qed

lemma isspace_space: "isspace (CHR '' '')"
  by (simp add: isspace_def)

subsection \<open>Defaulting lookups follow a path\<close>

lemma py_get_get_nested:
  assumes "py_get v k (JDict []) = Inr x" and "py_get x j JNull = Inr y"
  shows "y = nested v [k, j]"
  using assms by (auto simp: py_get_Inr_iff split: option.splits)

lemma py_get_nested:
  assumes "py_get v k JNull = Inr y"
  shows "y = nested v [k]"
  using assms by (auto simp: py_get_Inr_iff split: option.splits)

lemma py_getitem_nested:
  assumes "py_getitem v k = Inr m"
  shows "nested v (k # ks) = nested m ks"
  using assms by (auto simp: py_getitem_Inr_iff)

section \<open>A leading command with an argument\<close>

text \<open>
  Claim C1. An update whose text is \<^verbatim>\<open>/name arg\<close> and whose first entity is a
  \<^verbatim>\<open>bot_command\<close> at offset 0 of length \<^verbatim>\<open>len(name) + 1\<close>: \<^verbatim>\<open>get_command(True, True)\<close>
  returns the pair of \<open>name\<close> and the text after the command with the surrounding
  whitespace stripped, which is \<open>arg\<close> itself when \<open>arg\<close> has no surrounding whitespace.
\<close>

theorem get_command_name_and_argument:
  assumes "UpdateChat_init (JDict kvs) token w = (Inr c, w')"
    and "kvs ! 1 = (k, JDict d)"
    and "map_of d ''text'' = Some (JStr (CHR ''/'' # name @ CHR '' '' # arg))"
    and "map_of d ''entities'' = Some (JList (JDict e # es))"
    and "map_of e ''type'' = Some (JStr ''bot_command'')"
    and "map_of e ''offset'' = Some (JInt 0)"
    and "map_of e ''length'' = Some (JInt (int (length name) + 1))"
  shows "get_command c True True = Inr (CPair (JStr name) (JStr (strip arg)))
       \<and> (trimmed arg \<longrightarrow> get_command c True True = Inr (CPair (JStr name) (JStr arg)))"
proof -
  have t: "text' c = JStr (CHR ''/'' # name @ CHR '' '' # arg)"
    using UpdateChat_init_dict(1) [OF assms(1,2)] assms(3) by simp
  have "get_command c True True = Inr (CPair (JStr name) (JStr (strip (CHR '' '' # arg))))"
    using UpdateChat_init_entity [OF assms(1,2,4,5)] assms(6,7)
    by (simp add: get_command_entity t py_slice_def py_strip_def bindE_def
        slice_leading_name slice_after_name)
  then have "get_command c True True = Inr (CPair (JStr name) (JStr (strip arg)))"
    by (simp add: strip_leading_space isspace_space)
  then show ?thesis by (simp add: strip_of_trimmed)
qed

text \<open>The scenario of the specification: the text \<^verbatim>\<open>/go foo\<close>.\<close>

theorem get_command_name_and_argument_witness:
  "UpdateChat_init
     (JDict [(''update_id'', JInt 1),
        (''message'', JDict [(''message_id'', JInt 5), (''chat'', JDict [(''id'', JInt 42)]),
           (''from'', JDict [(''id'', JInt 7)]), (''text'', JStr ''/go foo''),
           (''entities'', JList [JDict [(''type'', JStr ''bot_command''),
              (''offset'', JInt 0), (''length'', JInt 3)]])])]) None []
   = (Inr \<lparr>bot_token = None, base_url = ''https://api.telegram.org/botNone'',
      update_type = ''message'', from_id = JInt 7, text' = JStr ''/go foo'',
      message_type = JStr ''bot_command'',
      entities = JList [JDict [(''type'', JStr ''bot_command''), (''offset'', JInt 0),
         (''length'', JInt 3)]],
      chat_id = JInt 42, message_id = JInt 5\<rparr>, [])
   \<and> trimmed ''foo''
   \<and> get_command
     \<lparr>bot_token = None, base_url = ''https://api.telegram.org/botNone'',
      update_type = ''message'', from_id = JInt 7, text' = JStr ''/go foo'',
      message_type = JStr ''bot_command'',
      entities = JList [JDict [(''type'', JStr ''bot_command''), (''offset'', JInt 0),
         (''length'', JInt 3)]],
      chat_id = JInt 42, message_id = JInt 5\<rparr> True True
   = Inr (CPair (JStr ''go'') (JStr ''foo''))"
  using get_command_name_and_argument [where
     kvs = "[(''update_id'', JInt 1),
        (''message'', JDict [(''message_id'', JInt 5), (''chat'', JDict [(''id'', JInt 42)]),
           (''from'', JDict [(''id'', JInt 7)]), (''text'', JStr ''/go foo''),
           (''entities'', JList [JDict [(''type'', JStr ''bot_command''),
              (''offset'', JInt 0), (''length'', JInt 3)]])])]"
     and token = None and w = "[]" and w' = "[]" and k = "''message''"
     and name = "''go''" and arg = "''foo''" and es = "[]"]
  by (simp add: run_defs trimmed_def strip_def isspace_def)

section \<open>A command that does not lead the text\<close>

text \<open>
  Claim C3. The first entity is a \<^verbatim>\<open>bot_command\<close> with integer offset and length. With
  \<^verbatim>\<open>only_start=True\<close> and an offset above 0 the result is \<^verbatim>\<open>None\<close>. With
  \<^verbatim>\<open>only_start=False\<close> the result is the slice of the text from \<open>offset + 1\<close> to
  \<open>offset + length\<close>, whatever the offset and the \<open>argument\<close> flag are; that slice is
  the command name when the entity covers \<^verbatim>\<open>/name\<close>.
\<close>

theorem get_command_not_leading:
  assumes "UpdateChat_init (JDict kvs) token w = (Inr c, w')"
    and "kvs ! 1 = (k, JDict d)"
    and "map_of d ''entities'' = Some (JList (JDict e # es))"
    and "map_of e ''type'' = Some (JStr ''bot_command'')"
    and "map_of e ''offset'' = Some (JInt off)"
    and "map_of e ''length'' = Some (JInt len)"
  shows "(0 < off \<longrightarrow> get_command c argument True = Inr CNone)
       \<and> (map_of d ''text'' = Some (JStr t) \<longrightarrow>
            get_command c argument False
              = Inr (CName (JStr (slice t (off + 1) (Some (off + len))))))
       \<and> (map_of d ''text'' = Some (JStr (pre @ CHR ''/'' # name @ rest))
            \<and> off = int (length pre) \<and> len = int (length name) + 1 \<longrightarrow>
            get_command c argument False = Inr (CName (JStr name)))"
proof -
  note ent = UpdateChat_init_entity [OF assms(1,2,3,4)]
  note gc = get_command_entity [OF ent(2) ent(1) assms(5,6)]
  have a: "0 < off \<longrightarrow> get_command c argument True = Inr CNone"
    by (simp add: gc)
  have b: "get_command c argument False
             = Inr (CName (JStr (slice s (off + 1) (Some (off + len)))))"
    if "map_of d ''text'' = Some (JStr s)" for s
  proof -
    from that have "text' c = JStr s"
      using UpdateChat_init_dict(1) [OF assms(1,2)] by simp
    then show ?thesis by (simp add: gc py_slice_def bindE_def)
  qed
  have c: "get_command c argument False = Inr (CName (JStr name))"
    if "map_of d ''text'' = Some (JStr (pre @ CHR ''/'' # name @ rest))"
      and "off = int (length pre)" and "len = int (length name) + 1"
    using b [OF that(1)] that(2,3) by (simp add: slice_command_name)
  from a b c show ?thesis by blast
qed

text \<open>The text \<^verbatim>\<open>hi /go foo\<close> with the command at offset 3.\<close>

theorem get_command_not_leading_witness:
  "UpdateChat_init
     (JDict [(''update_id'', JInt 1),
        (''message'', JDict [(''message_id'', JInt 5), (''chat'', JDict [(''id'', JInt 42)]),
           (''text'', JStr ''hi /go foo''),
           (''entities'', JList [JDict [(''type'', JStr ''bot_command''),
              (''offset'', JInt 3), (''length'', JInt 3)]])])]) None []
   = (Inr \<lparr>bot_token = None, base_url = ''https://api.telegram.org/botNone'',
      update_type = ''message'', from_id = JNull, text' = JStr ''hi /go foo'',
      message_type = JStr ''bot_command'',
      entities = JList [JDict [(''type'', JStr ''bot_command''), (''offset'', JInt 3),
         (''length'', JInt 3)]],
      chat_id = JInt 42, message_id = JInt 5\<rparr>, [])
   \<and> (0::int) < 3
   \<and> slice ''hi /go foo'' (3 + 1) (Some (3 + 3)) = ''go''
   \<and> get_command
     \<lparr>bot_token = None, base_url = ''https://api.telegram.org/botNone'',
      update_type = ''message'', from_id = JNull, text' = JStr ''hi /go foo'',
      message_type = JStr ''bot_command'',
      entities = JList [JDict [(''type'', JStr ''bot_command''), (''offset'', JInt 3),
         (''length'', JInt 3)]],
      chat_id = JInt 42, message_id = JInt 5\<rparr> True True = Inr CNone
   \<and> get_command
     \<lparr>bot_token = None, base_url = ''https://api.telegram.org/botNone'',
      update_type = ''message'', from_id = JNull, text' = JStr ''hi /go foo'',
      message_type = JStr ''bot_command'',
      entities = JList [JDict [(''type'', JStr ''bot_command''), (''offset'', JInt 3),
         (''length'', JInt 3)]],
      chat_id = JInt 42, message_id = JInt 5\<rparr> True False = Inr (CName (JStr ''go''))"
  using get_command_not_leading [where
     kvs = "[(''update_id'', JInt 1),
        (''message'', JDict [(''message_id'', JInt 5), (''chat'', JDict [(''id'', JInt 42)]),
           (''text'', JStr ''hi /go foo''),
           (''entities'', JList [JDict [(''type'', JStr ''bot_command''),
              (''offset'', JInt 3), (''length'', JInt 3)]])])]"
     and token = None and w = "[]" and w' = "[]" and k = "''message''" and es = "[]"
     and off = 3 and len = 3 and argument = True and t = "''hi /go foo''"
     and pre = "''hi ''" and name = "''go''" and rest = "'' foo''"]
  by (simp add: run_defs slice_def adjust_index_def)

section \<open>A leading command followed by whitespace only\<close>

text \<open>
  Claim C8. The first entity is a \<^verbatim>\<open>bot_command\<close> at offset 0 and the text after the
  command substring is empty or whitespace only: \<^verbatim>\<open>get_command(True, True)\<close> returns the
  command name paired with the empty string.
\<close>

theorem get_command_blank_argument:
  assumes "UpdateChat_init (JDict kvs) token w = (Inr c, w')"
    and "kvs ! 1 = (k, JDict d)"
    and "map_of d ''text'' = Some (JStr t)"
    and "map_of d ''entities'' = Some (JList (JDict e # es))"
    and "map_of e ''type'' = Some (JStr ''bot_command'')"
    and "map_of e ''offset'' = Some (JInt 0)"
    and "map_of e ''length'' = Some (JInt len)"
    and "\<forall>ch \<in> set (slice t len None). isspace ch"
  shows "get_command c True True = Inr (CPair (JStr (slice t 1 (Some len))) (JStr []))"
proof -
  note ent = UpdateChat_init_entity [OF assms(1,2,4,5)]
  have t: "text' c = JStr t"
    using UpdateChat_init_dict(1) [OF assms(1,2)] assms(3) by simp
  show ?thesis
    by (simp add: get_command_entity [OF ent(2) ent(1) assms(6,7)] t py_slice_def py_strip_def
        bindE_def strip_all_space [OF assms(8)])
qed

text \<open>The text \<^verbatim>\<open>/go\<close> followed by a space, a tab and a newline.\<close>

theorem get_command_blank_argument_witness:
  "UpdateChat_init
     (JDict [(''update_id'', JInt 1),
        (''message'', JDict [(''message_id'', JInt 5), (''chat'', JDict [(''id'', JInt 42)]),
           (''text'', JStr [CHR ''/'', CHR ''g'', CHR ''o'', CHR '' '', CHR 0x09, CHR 0x0A]),
           (''entities'', JList [JDict [(''type'', JStr ''bot_command''),
              (''offset'', JInt 0), (''length'', JInt 3)]])])]) None []
   = (Inr \<lparr>bot_token = None, base_url = ''https://api.telegram.org/botNone'',
      update_type = ''message'', from_id = JNull,
      text' = JStr [CHR ''/'', CHR ''g'', CHR ''o'', CHR '' '', CHR 0x09, CHR 0x0A],
      message_type = JStr ''bot_command'',
      entities = JList [JDict [(''type'', JStr ''bot_command''), (''offset'', JInt 0),
         (''length'', JInt 3)]],
      chat_id = JInt 42, message_id = JInt 5\<rparr>, [])
   \<and> slice [CHR ''/'', CHR ''g'', CHR ''o'', CHR '' '', CHR 0x09, CHR 0x0A] 3 None
       = [CHR '' '', CHR 0x09, CHR 0x0A]
   \<and> isspace (CHR '' '') \<and> isspace (CHR 0x09) \<and> isspace (CHR 0x0A)
   \<and> get_command
     \<lparr>bot_token = None, base_url = ''https://api.telegram.org/botNone'',
      update_type = ''message'', from_id = JNull,
      text' = JStr [CHR ''/'', CHR ''g'', CHR ''o'', CHR '' '', CHR 0x09, CHR 0x0A],
      message_type = JStr ''bot_command'',
      entities = JList [JDict [(''type'', JStr ''bot_command''), (''offset'', JInt 0),
         (''length'', JInt 3)]],
      chat_id = JInt 42, message_id = JInt 5\<rparr> True True
     = Inr (CPair (JStr ''go'') (JStr []))"
  using get_command_blank_argument [where
     kvs = "[(''update_id'', JInt 1),
        (''message'', JDict [(''message_id'', JInt 5), (''chat'', JDict [(''id'', JInt 42)]),
           (''text'', JStr [CHR ''/'', CHR ''g'', CHR ''o'', CHR '' '', CHR 0x09, CHR 0x0A]),
           (''entities'', JList [JDict [(''type'', JStr ''bot_command''),
              (''offset'', JInt 0), (''length'', JInt 3)]])])]"
     and token = None and w = "[]" and w' = "[]" and k = "''message''" and es = "[]"
     and len = 3 and t = "[CHR ''/'', CHR ''g'', CHR ''o'', CHR '' '', CHR 0x09, CHR 0x0A]"]
  by (simp add: run_defs slice_def adjust_index_def isspace_def)

section \<open>More auxiliary facts\<close>

subsection \<open>Constructors leave the network alone\<close>

lemma SentChat_init_net: "snd (SentChat_init token sent_msg w) = w"
  by (simp add: SentChat_init_def bindS_def liftE_def Bot_init_def)

subsection \<open>When construction succeeds\<close>

lemma is_dict_iff: "is_dict x \<longleftrightarrow> (\<exists>d. x = JDict d)"
  by (cases x) (simp_all add: is_dict_def)

lemma first_is_dict_iff: "first_is_dict x \<longleftrightarrow> (\<exists>d es. x = JList (JDict d # es))"
proof (cases x)
  case (JList l)
  then show ?thesis by (cases l) (auto simp: first_is_dict_def is_dict_iff)
qed (simp_all add: first_is_dict_def)

lemma py_get_dict [simp]: "py_get (JDict d) k dflt = Inr (case map_of d k of None \<Rightarrow> dflt | Some v \<Rightarrow> v)"
  by (simp add: py_get_def)

lemma UpdateChat_init_net: "snd (UpdateChat_init update token w) = w"
  by (simp add: UpdateChat_init_def bindS_def liftE_def Bot_init_def)

lemma py_get_ok_is_dict: "py_get x k dflt = Inr y \<Longrightarrow> is_dict x"
  by (auto simp: py_get_Inr_iff is_dict_iff)

lemma UpdateChat_init_shape:
  assumes "UpdateChat_init (JDict kvs) token w = (Inr c, w')"
    and "kvs ! 1 = (k, v)" and "k \<noteq> ''callback_query''"
  shows "kind_payload_ok v"
proof -
  from UpdateChat_init_fields [OF assms(1)] assms(2,3)
  obtain f e ch where f: "py_get v ''from'' (JDict []) = Inr f" "py_get f ''id'' JNull = Inr (from_id c)"
    and en: "py_get v ''entities'' (JList [JDict []]) = Inr (entities c)"
    and e: "py_index0 (entities c) = Inr e" "py_get e ''type'' (JStr ''text'') = Inr (message_type c)"
    and ch: "py_get v ''chat'' (JDict []) = Inr ch" "py_get ch ''id'' JNull = Inr (chat_id c)"
    by auto
  from f(1) obtain d where v: "v = JDict d" by (auto simp: py_get_Inr_iff)
  have 1: "case map_of d ''from'' of None \<Rightarrow> True | Some x \<Rightarrow> is_dict x"
    using f v py_get_ok_is_dict [OF f(2)] by (auto split: option.splits)
  have 3: "case map_of d ''chat'' of None \<Rightarrow> True | Some x \<Rightarrow> is_dict x"
    using ch v py_get_ok_is_dict [OF ch(2)] by (auto split: option.splits)
  have "first_is_dict (entities c)"
    using e py_get_ok_is_dict [OF e(2)]
    by (auto simp: py_index0_def first_is_dict_def is_dict_def split: json.splits list.splits)
  then have 2: "case map_of d ''entities'' of None \<Rightarrow> True | Some x \<Rightarrow> first_is_dict x"
    using en v by (auto split: option.splits)
  from 1 2 3 v show ?thesis by (simp add: kind_payload_ok_def)
qed

lemma UpdateChat_init_succeeds:
  assumes "1 < length kvs" and "kvs ! 1 = (k, v)" and "k \<noteq> ''callback_query''"
    and "kind_payload_ok v"
  shows "\<exists>c. UpdateChat_init (JDict kvs) token w = (Inr c, w)"
proof -
  from assms(4) obtain d where v: "v = JDict d"
    by (cases v) (simp_all add: kind_payload_ok_def)
  from assms(4) v have ok: "case map_of d ''from'' of None \<Rightarrow> True | Some x \<Rightarrow> is_dict x"
     "case map_of d ''entities'' of None \<Rightarrow> True | Some x \<Rightarrow> first_is_dict x"
     "case map_of d ''chat'' of None \<Rightarrow> True | Some x \<Rightarrow> is_dict x"
    by (simp_all add: kind_payload_ok_def)
  obtain f where f: "(case map_of d ''from'' of None \<Rightarrow> JDict [] | Some x \<Rightarrow> x) = JDict f"
    using ok(1) by (auto simp: is_dict_iff split: option.splits)
  obtain ch where ch: "(case map_of d ''chat'' of None \<Rightarrow> JDict [] | Some x \<Rightarrow> x) = JDict ch"
    using ok(3) by (auto simp: is_dict_iff split: option.splits)
  obtain e es where e: "(case map_of d ''entities'' of None \<Rightarrow> JList [JDict []] | Some x \<Rightarrow> x) = JList (JDict e # es)"
    using ok(2) by (auto simp: first_is_dict_iff split: option.splits)
  show ?thesis
    using assms(1,2,3) v
    by (simp add: UpdateChat_init_def bindS_def liftE_def Bot_init_def bindE_def py_items_def
        tuple_index_def f ch e py_index0_def)
qed

subsection \<open>The request of send\_message\<close>

lemma send_message_net:
  "snd (send_message dumps srv self cid txt message_thread_id parse_mode ents
     disable_web_page_preview disable_notification protect_content reply_to_message_id
     allow_sending_without_reply reply_markup w)
   = w @ [(base_url self @ ''/sendMessage'',
       JDict (dict_display
            [(''chat_id'', cid),
             (''parse_mode'', if parse_mode \<noteq> JNull then parse_mode else JStr ''HTML''),
             (''text'', txt),
             (''allow_sending_without_reply'', JBool True),
             (''disable_web_page_preview'', JBool disable_web_page_preview),
             (''reply_to_message_id'', reply_to_message_id),
             (''allow_sending_without_reply'', JBool allow_sending_without_reply),
             (''reply_markup'', JStr (dumps reply_markup)),
             (''disable_notification'', JBool disable_notification),
             (''protect_content'', JBool protect_content),
             (''message_thread_id'', message_thread_id),
             (''entities'', JStr (dumps ents))]))]"
proof -
  have *: "snd (bindS (requests_post srv url body) (\<lambda>r. SentChat_init t r) w) = w @ [(url, body)]"
    for url body t
    using SentChat_init_net
    by (cases "srv w (url, body)") (simp_all add: bindS_def requests_post_def)
  show ?thesis
    unfolding send_message_def Let_def by (rule *)
qed

lemma dict_display_send_message:
  "dict_display
     [(''chat_id'', a), (''parse_mode'', b), (''text'', c),
      (''allow_sending_without_reply'', d1), (''disable_web_page_preview'', e),
      (''reply_to_message_id'', f), (''allow_sending_without_reply'', d2),
      (''reply_markup'', g), (''disable_notification'', h), (''protect_content'', i),
      (''message_thread_id'', j), (''entities'', k)]
   = [(''chat_id'', a), (''parse_mode'', b), (''text'', c),
      (''allow_sending_without_reply'', d2), (''disable_web_page_preview'', e),
      (''reply_to_message_id'', f), (''reply_markup'', g), (''disable_notification'', h),
      (''protect_content'', i), (''message_thread_id'', j), (''entities'', k)]"
  by (simp add: dict_display_def)

subsection \<open>Construction of either kind\<close>

lemma message_ok_iff:
  "message_ok m \<longleftrightarrow>
     (\<exists>md ch. m = JDict md
        \<and> (case map_of md ''chat'' of None \<Rightarrow> JDict [] | Some x \<Rightarrow> x) = JDict ch)"
  by (cases m) (auto simp: message_ok_def is_dict_iff split: option.splits)

lemma UpdateChat_init_callback_shape:
  assumes "UpdateChat_init (JDict kvs) token w = (Inr c, w')"
    and "kvs ! 1 = (''callback_query'', v)"
  shows "callback_payload_ok v"
proof -
  from UpdateChat_init_fields [OF assms(1)] assms(2)
  obtain f e m ch where f: "py_get v ''from'' (JDict []) = Inr f"
      "py_get f ''id'' JNull = Inr (from_id c)"
    and en: "py_get v ''entities'' (JList [JDict []]) = Inr (entities c)"
    and e: "py_index0 (entities c) = Inr e"
      "py_get e ''type'' (JStr ''text'') = Inr (message_type c)"
    and m: "py_getitem v ''message'' = Inr m"
    and ch: "py_get m ''chat'' (JDict []) = Inr ch" "py_get ch ''id'' JNull = Inr (chat_id c)"
    by auto
  from f(1) obtain d where v: "v = JDict d" by (auto simp: py_get_Inr_iff)
  have 1: "case map_of d ''from'' of None \<Rightarrow> True | Some x \<Rightarrow> is_dict x"
    using f v py_get_ok_is_dict [OF f(2)] by (auto split: option.splits)
  have "first_is_dict (entities c)"
    using e py_get_ok_is_dict [OF e(2)]
    by (auto simp: py_index0_def first_is_dict_def is_dict_def split: json.splits list.splits)
  then have 2: "case map_of d ''entities'' of None \<Rightarrow> True | Some x \<Rightarrow> first_is_dict x"
    using en v by (auto split: option.splits)
  from m v have md: "map_of d ''message'' = Some m"
    by (simp add: py_getitem_Inr_iff)
  have "message_ok m"
    using ch py_get_ok_is_dict [OF ch(2)]
    by (auto simp: message_ok_iff py_get_Inr_iff is_dict_iff split: option.splits)
  with md have 3: "case map_of d ''message'' of None \<Rightarrow> False | Some x \<Rightarrow> message_ok x"
    by simp
  from 1 2 3 v show ?thesis by (simp add: callback_payload_ok_def)
qed

lemma UpdateChat_init_callback_succeeds:
  assumes "1 < length kvs" and "kvs ! 1 = (''callback_query'', v)"
    and "callback_payload_ok v"
  shows "\<exists>c. UpdateChat_init (JDict kvs) token w = (Inr c, w)"
proof -
  from assms(3) obtain d where v: "v = JDict d"
    by (cases v) (simp_all add: callback_payload_ok_def)
  from assms(3) v have ok: "case map_of d ''from'' of None \<Rightarrow> True | Some x \<Rightarrow> is_dict x"
     "case map_of d ''entities'' of None \<Rightarrow> True | Some x \<Rightarrow> first_is_dict x"
     "case map_of d ''message'' of None \<Rightarrow> False | Some x \<Rightarrow> message_ok x"
    by (simp_all add: callback_payload_ok_def)
  obtain f where f: "(case map_of d ''from'' of None \<Rightarrow> JDict [] | Some x \<Rightarrow> x) = JDict f"
    using ok(1) by (auto simp: is_dict_iff split: option.splits)
  obtain e es where e: "(case map_of d ''entities'' of None \<Rightarrow> JList [JDict []] | Some x \<Rightarrow> x)
      = JList (JDict e # es)"
    using ok(2) by (auto simp: first_is_dict_iff split: option.splits)
  from ok(3) obtain m0 where m0: "map_of d ''message'' = Some m0" and "message_ok m0"
    by (cases "map_of d ''message''") simp_all
  from \<open>message_ok m0\<close> obtain md ch where "m0 = JDict md"
    and ch: "(case map_of md ''chat'' of None \<Rightarrow> JDict [] | Some x \<Rightarrow> x) = JDict ch"
    unfolding message_ok_iff by blast
  with m0 have m: "map_of d ''message'' = Some (JDict md)" by simp
  show ?thesis
    using assms(1,2) v
    by (simp add: UpdateChat_init_def bindS_def liftE_def Bot_init_def bindE_def py_items_def
        tuple_index_def f ch e m py_index0_def py_getitem_def)
qed

lemma UpdateChat_init_payload_ok:
  assumes "UpdateChat_init (JDict kvs) token w = (Inr c, w')" and "kvs ! 1 = (k, v)"
  shows "payload_ok k v"
  using UpdateChat_init_callback_shape [OF assms(1)] UpdateChat_init_shape [OF assms(1)] assms(2)
  by (auto simp: payload_ok_def)

lemma UpdateChat_init_payload_succeeds:
  assumes "1 < length kvs" and "kvs ! 1 = (k, v)" and "payload_ok k v"
  shows "\<exists>c. UpdateChat_init (JDict kvs) token w = (Inr c, w)"
proof (cases "k = ''callback_query''")
  case True
  with assms show ?thesis
    using UpdateChat_init_callback_succeeds [of kvs v token w] by (simp add: payload_ok_def)
next
  case False
  with assms show ?thesis
    using UpdateChat_init_succeeds [of kvs k v token w] by (simp add: payload_ok_def)
qed

lemma UpdateChat_init_raises:
  assumes "kvs ! 1 = (k, v)" and "\<not> payload_ok k v"
  shows "\<exists>e. UpdateChat_init (JDict kvs) token w = (Inl e, w)"
proof -
  obtain r w' where r: "UpdateChat_init (JDict kvs) token w = (r, w')"
    by (cases "UpdateChat_init (JDict kvs) token w")
  with UpdateChat_init_net [of "JDict kvs" token w] have w': "w' = w" by simp
  have "\<exists>e. r = Inl e"
  proof (cases r)
    case (Inr c)
    with r UpdateChat_init_payload_ok [OF _ assms(1)] assms(2) show ?thesis by blast
  qed simp
  with r w' show ?thesis by blast
qed

lemma UpdateChat_init_ids:
  assumes "UpdateChat_init (JDict kvs) token w = (Inr c, w')"
    and "kvs ! 1 = (k, v)"
  shows "(k = ''callback_query'' \<longrightarrow>
            chat_id c = nested v [''message'', ''chat'', ''id'']
          \<and> message_id c = nested v [''message'', ''message_id''])
       \<and> (k \<noteq> ''callback_query'' \<longrightarrow>
            chat_id c = nested v [''chat'', ''id'']
          \<and> message_id c = nested v [''message_id''])"
proof (cases "k = ''callback_query''")
  case True
  with UpdateChat_init_fields [OF assms(1)] assms(2)
  obtain m ch where m: "py_getitem v ''message'' = Inr m"
    and ch: "py_get m ''chat'' (JDict []) = Inr ch" "py_get ch ''id'' JNull = Inr (chat_id c)"
    and mi: "py_get m ''message_id'' JNull = Inr (message_id c)"
    by auto
  have "chat_id c = nested m [''chat'', ''id'']"
    by (rule py_get_get_nested [OF ch])
  moreover have "message_id c = nested m [''message_id'']"
    by (rule py_get_nested [OF mi])
  ultimately show ?thesis
    using True by (simp only: py_getitem_nested [OF m]) simp
next
  case False
  with UpdateChat_init_fields [OF assms(1)] assms(2)
  obtain ch where ch: "py_get v ''chat'' (JDict []) = Inr ch"
      "py_get ch ''id'' JNull = Inr (chat_id c)"
    and mi: "py_get v ''message_id'' JNull = Inr (message_id c)"
    by auto
  have "chat_id c = nested v [''chat'', ''id'']"
    by (rule py_get_get_nested [OF ch])
  moreover have "message_id c = nested v [''message_id'']"
    by (rule py_get_nested [OF mi])
  ultimately show ?thesis
    using False by simp
qed

subsection \<open>Construction of a handle\<close>

lemma SentChat_init_fields:
  assumes "SentChat_init token sent_msg w = (Inr h, w')"
  shows "\<exists>kvs. sent_msg = JDict kvs \<and> 1 < length kvs \<and> w' = w
     \<and> (\<exists>f. py_get (snd (kvs ! 1)) ''from'' (JDict []) = Inr f
            \<and> py_get f ''id'' JNull = Inr (sent_from_id h))
     \<and> (\<exists>ch. py_get (snd (kvs ! 1)) ''chat'' (JDict []) = Inr ch
            \<and> py_get ch ''id'' JNull = Inr (sent_chat_id h))
     \<and> py_get (snd (kvs ! 1)) ''message_id'' JNull = Inr (sent_message_id h)
     \<and> py_get (snd (kvs ! 1)) ''message_id'' JNull = Inr (sent_text h)"
proof -
  from assms obtain kvs where u: "sent_msg = JDict kvs"
    by (cases sent_msg)
      (auto simp: SentChat_init_def bindS_def liftE_def Bot_init_def bindE_def py_items_def)
  from assms u have len: "1 < length kvs"
    by (auto simp: SentChat_init_def bindS_def liftE_def Bot_init_def bindE_def py_items_def
        tuple_index_def split: if_splits)
  from assms u len show ?thesis
    apply (simp add: SentChat_init_def bindS_def liftE_def Bot_init_def py_items_def
        tuple_index_def)
    apply (simp add: bindE_def [of "Inr _"])
    apply (auto simp: bindE_Inr_iff)
    done
qed

lemma SentChat_init_response_ok:
  assumes "SentChat_init token sent_msg w = (Inr h, w')"
  shows "response_ok sent_msg"
proof -
  from SentChat_init_fields [OF assms]
  obtain kvs f ch where u: "sent_msg = JDict kvs" and len: "1 < length kvs"
    and f: "py_get (snd (kvs ! 1)) ''from'' (JDict []) = Inr f"
      "py_get f ''id'' JNull = Inr (sent_from_id h)"
    and ch: "py_get (snd (kvs ! 1)) ''chat'' (JDict []) = Inr ch"
      "py_get ch ''id'' JNull = Inr (sent_chat_id h)"
    by auto
  from f(1) obtain d where v: "snd (kvs ! 1) = JDict d" by (auto simp: py_get_Inr_iff)
  have 1: "case map_of d ''from'' of None \<Rightarrow> True | Some x \<Rightarrow> is_dict x"
    using f v py_get_ok_is_dict [OF f(2)] by (auto split: option.splits)
  have 2: "case map_of d ''chat'' of None \<Rightarrow> True | Some x \<Rightarrow> is_dict x"
    using ch v py_get_ok_is_dict [OF ch(2)] by (auto split: option.splits)
  from 1 2 v have "sent_payload_ok (snd (kvs ! 1))"
    by (simp add: sent_payload_ok_def)
  with u len show ?thesis by (simp add: response_ok_def)
qed

lemma SentChat_init_succeeds:
  assumes "response_ok sent_msg"
  shows "\<exists>h. SentChat_init token sent_msg w = (Inr h, w)"
proof -
  from assms obtain kvs where u: "sent_msg = JDict kvs"
    by (cases sent_msg) (simp_all add: response_ok_def)
  with assms have len: "1 < length kvs" and sp: "sent_payload_ok (snd (kvs ! 1))"
    by (simp_all add: response_ok_def)
  from sp obtain d where v: "snd (kvs ! 1) = JDict d"
    by (cases "snd (kvs ! 1)") (simp_all add: sent_payload_ok_def)
  from sp v have ok: "case map_of d ''from'' of None \<Rightarrow> True | Some x \<Rightarrow> is_dict x"
     "case map_of d ''chat'' of None \<Rightarrow> True | Some x \<Rightarrow> is_dict x"
    by (simp_all add: sent_payload_ok_def)
  obtain f where f: "(case map_of d ''from'' of None \<Rightarrow> JDict [] | Some x \<Rightarrow> x) = JDict f"
    using ok(1) by (auto simp: is_dict_iff split: option.splits)
  obtain ch where ch: "(case map_of d ''chat'' of None \<Rightarrow> JDict [] | Some x \<Rightarrow> x) = JDict ch"
    using ok(2) by (auto simp: is_dict_iff split: option.splits)
  show ?thesis
    using u len v
    by (simp add: SentChat_init_def bindS_def liftE_def Bot_init_def bindE_def py_items_def
        tuple_index_def f ch)
qed

section \<open>A payload without a second key\<close>

text \<open>
  Claim C5, as the code has it. A payload with fewer than two top-level entries is not
  constructed: \<^verbatim>\<open>update_tuple[1]\<close> raises Python's IndexError, and nothing is posted.
\<close>

theorem missing_second_key_raises_IndexError:
  assumes "length kvs < 2"
  shows "UpdateChat_init (JDict kvs) token w = (Inl IndexError, w)"
  using assms
  by (simp add: UpdateChat_init_def bindS_def liftE_def Bot_init_def bindE_def py_items_def
      tuple_index_def)

theorem missing_second_key_raises_IndexError_witness:
  "length [(''update_id'', JInt 1)] < 2
   \<and> UpdateChat_init (JDict [(''update_id'', JInt 1)]) None [] = (Inl IndexError, [])"
  using missing_second_key_raises_IndexError [of "[(''update_id'', JInt 1)]" None "[]"]
  by simp

text \<open>
  Claim C5 as stated fails: on the payload \<^verbatim>\<open>{"update_id": 1}\<close> the exception is
  IndexError, not MalformedPayload.
\<close>

theorem missing_second_key_not_MalformedPayload:
  "fst (UpdateChat_init (JDict [(''update_id'', JInt 1)]) None []) = Inl IndexError
   \<and> fst (UpdateChat_init (JDict [(''update_id'', JInt 1)]) None []) \<noteq> Inl MalformedPayload"
  by (simp add: run_defs)

section \<open>A client without a token\<close>

text \<open>
  Claim C6, as the code has it. With no explicit token and no \<^verbatim>\<open>TG_BOT_TOKEN\<close> in the
  environment, the constructor raises nothing: the client holds the token \<^verbatim>\<open>None\<close> and
  the base URL ending in \<^verbatim>\<open>botNone\<close>, and nothing is posted.
\<close>

theorem client_without_token_is_constructed:
  assumes "environ ''TG_BOT_TOKEN'' = None"
  shows "Bot_default environ w
           = (Inr \<lparr>bot_token = None, base_url = ''https://api.telegram.org/botNone''\<rparr>, w)
       \<and> Bot_init None w
           = (Inr \<lparr>bot_token = None, base_url = ''https://api.telegram.org/botNone''\<rparr>, w)"
  using assms
  by (simp add: Bot_default_def BOT_TOKEN_def Bot_init_def liftE_def format_token_def)

theorem client_without_token_is_constructed_witness:
  "Map.empty ''TG_BOT_TOKEN'' = (None :: string option)
   \<and> Bot_default Map.empty []
           = (Inr \<lparr>bot_token = None, base_url = ''https://api.telegram.org/botNone''\<rparr>, [])"
  using client_without_token_is_constructed [of Map.empty "[]"]
  by simp

text \<open>
  Claim C6 as stated fails: with an empty environment the constructor returns a client,
  not a MissingCredential error.
\<close>

theorem client_without_token_no_MissingCredential:
  "fst (Bot_default Map.empty [])
     = Inr \<lparr>bot_token = None, base_url = ''https://api.telegram.org/botNone''\<rparr>
   \<and> fst (Bot_default Map.empty []) \<noteq> Inl MissingCredential"
  by (simp add: Bot_default_def BOT_TOKEN_def Bot_init_def liftE_def format_token_def)

section \<open>The body of a sendMessage request\<close>

text \<open>
  Claim C7. Every call of \<^verbatim>\<open>send_message\<close> posts one request to \<^verbatim>\<open>/sendMessage\<close> whose
  body holds \<^verbatim>\<open>reply_markup\<close> and \<^verbatim>\<open>entities\<close> as the strings \<^verbatim>\<open>json.dumps\<close> makes of
  them and every other field as it was passed; \<^verbatim>\<open>parse_mode\<close> is \<^verbatim>\<open>"HTML"\<close> when it is
  \<^verbatim>\<open>None\<close>, and when it is not supplied, as in \<^verbatim>\<open>UpdateChat.send_message\<close>.
\<close>

theorem send_message_request_body:
  "snd (send_message dumps srv self cid txt message_thread_id parse_mode ents
     disable_web_page_preview disable_notification protect_content reply_to_message_id
     allow_sending_without_reply reply_markup w)
   = w @ [(base_url self @ ''/sendMessage'',
       JDict [(''chat_id'', cid),
              (''parse_mode'', if parse_mode = JNull then JStr ''HTML'' else parse_mode),
              (''text'', txt),
              (''allow_sending_without_reply'', JBool allow_sending_without_reply),
              (''disable_web_page_preview'', JBool disable_web_page_preview),
              (''reply_to_message_id'', reply_to_message_id),
              (''reply_markup'', JStr (dumps reply_markup)),
              (''disable_notification'', JBool disable_notification),
              (''protect_content'', JBool protect_content),
              (''message_thread_id'', message_thread_id),
              (''entities'', JStr (dumps ents))])]
   \<and> snd (UpdateChat_send_message dumps srv c txt w)
   = w @ [(base_url c @ ''/sendMessage'',
       JDict [(''chat_id'', chat_id c),
              (''parse_mode'', JStr ''HTML''),
              (''text'', txt),
              (''allow_sending_without_reply'', JBool False),
              (''disable_web_page_preview'', JBool False),
              (''reply_to_message_id'', JNull),
              (''reply_markup'', JStr (dumps (JDict []))),
              (''disable_notification'', JBool False),
              (''protect_content'', JBool False),
              (''message_thread_id'', JNull),
              (''entities'', JStr (dumps (JDict [])))])]"
  by (simp add: UpdateChat_send_message_def send_message_net dict_display_send_message
      Bot.truncate_def)

section \<open>Construction of the other kinds\<close>

text \<open>
  Claim C9, as the code has it. For a payload with at least two top-level keys whose
  second key is not \<^verbatim>\<open>callback_query\<close>, construction succeeds exactly when the kind
  payload has the shape \<open>kind_payload_ok\<close>; then \<open>from_id\<close>, \<open>text\<close>, \<open>chat_id\<close> and
  \<open>message_id\<close> are the nested values, \<^verbatim>\<open>None\<close> where a field is missing. Otherwise it
  raises.
\<close>

theorem construction_of_other_kinds:
  assumes "1 < length kvs" and "kvs ! 1 = (k, v)" and "k \<noteq> ''callback_query''"
  shows "(kind_payload_ok v \<longrightarrow>
           (\<exists>c. UpdateChat_init (JDict kvs) token w = (Inr c, w)
              \<and> from_id c = nested v [''from'', ''id'']
              \<and> text' c = nested v [''text'']
              \<and> chat_id c = nested v [''chat'', ''id'']
              \<and> message_id c = nested v [''message_id'']))
       \<and> (\<not> kind_payload_ok v \<longrightarrow>
           (\<exists>e. UpdateChat_init (JDict kvs) token w = (Inl e, w)))"
proof (cases "kind_payload_ok v")
  case True
  from UpdateChat_init_succeeds [OF assms True]
  obtain c where c: "UpdateChat_init (JDict kvs) token w = (Inr c, w)" by blast
  from UpdateChat_init_fields [OF c] assms(2,3)
  obtain f ch where f: "py_get v ''from'' (JDict []) = Inr f" "py_get f ''id'' JNull = Inr (from_id c)"
    and t: "py_get v ''text'' JNull = Inr (text' c)"
    and ch: "py_get v ''chat'' (JDict []) = Inr ch" "py_get ch ''id'' JNull = Inr (chat_id c)"
    and mi: "py_get v ''message_id'' JNull = Inr (message_id c)"
    by auto
  have "from_id c = nested v [''from'', ''id'']" by (rule py_get_get_nested [OF f])
  moreover have "text' c = nested v [''text'']" by (rule py_get_nested [OF t])
  moreover have "chat_id c = nested v [''chat'', ''id'']" by (rule py_get_get_nested [OF ch])
  moreover have "message_id c = nested v [''message_id'']" by (rule py_get_nested [OF mi])
  ultimately show ?thesis using True c by blast
next
  case False
  obtain r w' where r: "UpdateChat_init (JDict kvs) token w = (r, w')"
    by (cases "UpdateChat_init (JDict kvs) token w")
  with UpdateChat_init_net [of "JDict kvs" token w] have w': "w' = w" by simp
  have "\<exists>e. r = Inl e"
  proof (cases r)
    case (Inr c)
    with r UpdateChat_init_shape [OF _ assms(2,3)] False show ?thesis by blast
  qed simp
  with r w' False show ?thesis by blast
qed

theorem construction_of_other_kinds_witness:
  "1 < length [(''update_id'', JInt 1), (''message'', JDict [(''text'', JStr ''hello'')])]
   \<and> ''message'' \<noteq> ''callback_query''
   \<and> kind_payload_ok (JDict [(''text'', JStr ''hello'')])
   \<and> \<not> kind_payload_ok (JDict [(''entities'', JList [])])
   \<and> UpdateChat_init (JDict [(''update_id'', JInt 1), (''message'', JDict [(''text'', JStr ''hello'')])]) None []
     = (Inr \<lparr>bot_token = None, base_url = ''https://api.telegram.org/botNone'',
      update_type = ''message'', from_id = JNull, text' = JStr ''hello'',
      message_type = JStr ''text'', entities = JList [JDict []],
      chat_id = JNull, message_id = JNull\<rparr>, [])
   \<and> (\<exists>e. UpdateChat_init (JDict [(''update_id'', JInt 1), (''message'', JDict [(''entities'', JList [])])]) None [] = (Inl e, []))"
  using construction_of_other_kinds [where
      kvs = "[(''update_id'', JInt 1), (''message'', JDict [(''text'', JStr ''hello'')])]"
      and k = "''message''" and token = None and w = "[]"]
    construction_of_other_kinds [where
      kvs = "[(''update_id'', JInt 1), (''message'', JDict [(''entities'', JList [])])]"
      and k = "''message''" and token = None and w = "[]"]
  by (simp add: run_defs kind_payload_ok_def first_is_dict_def is_dict_def)

text \<open>
  Claim C9 as stated fails: a kind payload with an empty \<^verbatim>\<open>entities\<close> list has two
  top-level keys and the kind \<^verbatim>\<open>message\<close>, and its construction raises IndexError.
\<close>

theorem empty_entities_list_raises:
  "UpdateChat_init
     (JDict [(''update_id'', JInt 1), (''message'', JDict [(''entities'', JList [])])]) None []
   = (Inl IndexError, [])"
  by (simp add: run_defs)

section \<open>Plain text\<close>

text \<open>
  Claim C2, as the code has it. The payload has at least two top-level keys and its kind
  payload is a dictionary without an \<^verbatim>\<open>entities\<close> key. When the kind payload has the
  shape \<open>payload_ok\<close>, the update is constructed, its message type is \<^verbatim>\<open>"text"\<close>, and
  \<^verbatim>\<open>get_command\<close> returns \<^verbatim>\<open>None\<close>, without raising, for every combination of its two
  flags. Otherwise the constructor raises.
\<close>

theorem no_entities_is_plain_text:
  assumes "1 < length kvs" and "kvs ! 1 = (k, JDict d)" and "map_of d ''entities'' = None"
  shows "(payload_ok k (JDict d) \<longrightarrow>
           (\<exists>c. UpdateChat_init (JDict kvs) token w = (Inr c, w)
              \<and> message_type c = JStr ''text''
              \<and> (\<forall>argument only_start. get_command c argument only_start = Inr CNone)))
       \<and> (\<not> payload_ok k (JDict d) \<longrightarrow>
           (\<exists>e. UpdateChat_init (JDict kvs) token w = (Inl e, w)))"
proof (cases "payload_ok k (JDict d)")
  case True
  from UpdateChat_init_payload_succeeds [OF assms(1,2) True]
  obtain c where c: "UpdateChat_init (JDict kvs) token w = (Inr c, w)" by blast
  have "entities c = JList [JDict []]"
    using UpdateChat_init_dict(2) [OF c assms(2)] assms(3) by simp
  with UpdateChat_init_dict(3) [OF c assms(2)] have "message_type c = JStr ''text''"
    by (simp add: py_index0_def py_get_def)
  then have "\<forall>argument only_start. get_command c argument only_start = Inr CNone"
    by (simp add: get_command_def)
  with c \<open>message_type c = JStr ''text''\<close> True show ?thesis by blast
next
  case False
  with UpdateChat_init_raises [OF assms(2)] show ?thesis by blast
qed

text \<open>
  The second scenario of the specification (the text \<^verbatim>\<open>hello\<close>, no entities), and a
  payload whose \<^verbatim>\<open>from\<close> is \<^verbatim>\<open>null\<close>.
\<close>

theorem no_entities_is_plain_text_witness:
  "1 < length [(''update_id'', JInt 1),
        (''message'', JDict [(''message_id'', JInt 5), (''chat'', JDict [(''id'', JInt 42)]),
           (''from'', JDict [(''id'', JInt 7)]), (''text'', JStr ''hello'')])]
   \<and> map_of [(''message_id'', JInt 5), (''chat'', JDict [(''id'', JInt 42)]),
           (''from'', JDict [(''id'', JInt 7)]), (''text'', JStr ''hello'')] ''entities'' = None
   \<and> payload_ok ''message'' (JDict [(''message_id'', JInt 5), (''chat'', JDict [(''id'', JInt 42)]),
           (''from'', JDict [(''id'', JInt 7)]), (''text'', JStr ''hello'')])
   \<and> UpdateChat_init
     (JDict [(''update_id'', JInt 1),
        (''message'', JDict [(''message_id'', JInt 5), (''chat'', JDict [(''id'', JInt 42)]),
           (''from'', JDict [(''id'', JInt 7)]), (''text'', JStr ''hello'')])]) None []
   = (Inr \<lparr>bot_token = None, base_url = ''https://api.telegram.org/botNone'',
      update_type = ''message'', from_id = JInt 7, text' = JStr ''hello'',
      message_type = JStr ''text'', entities = JList [JDict []],
      chat_id = JInt 42, message_id = JInt 5\<rparr>, [])
   \<and> (\<forall>argument only_start. get_command
     \<lparr>bot_token = None, base_url = ''https://api.telegram.org/botNone'',
      update_type = ''message'', from_id = JInt 7, text' = JStr ''hello'',
      message_type = JStr ''text'', entities = JList [JDict []],
      chat_id = JInt 42, message_id = JInt 5\<rparr> argument only_start = Inr CNone)
   \<and> \<not> payload_ok ''message'' (JDict [(''message_id'', JInt 5), (''from'', JNull),
           (''text'', JStr ''hello'')])
   \<and> (\<exists>e. UpdateChat_init
     (JDict [(''update_id'', JInt 1),
        (''message'', JDict [(''message_id'', JInt 5), (''from'', JNull),
           (''text'', JStr ''hello'')])]) None [] = (Inl e, []))"
  using no_entities_is_plain_text [where
     kvs = "[(''update_id'', JInt 1),
        (''message'', JDict [(''message_id'', JInt 5), (''chat'', JDict [(''id'', JInt 42)]),
           (''from'', JDict [(''id'', JInt 7)]), (''text'', JStr ''hello'')])]"
     and token = None and w = "[]" and k = "''message''"]
    no_entities_is_plain_text [where
     kvs = "[(''update_id'', JInt 1),
        (''message'', JDict [(''message_id'', JInt 5), (''from'', JNull),
           (''text'', JStr ''hello'')])]"
     and token = None and w = "[]" and k = "''message''"]
  by (simp add: run_defs payload_ok_def kind_payload_ok_def is_dict_def get_command_def)

text \<open>
  Claim C2 as stated fails: the kind payload of a \<^verbatim>\<open>callback_query\<close> that has no
  \<^verbatim>\<open>message\<close> entry has no \<^verbatim>\<open>entities\<close> key either, and its construction raises KeyError.
\<close>

theorem callback_query_without_message_raises:
  "map_of [(''id'', JStr ''77''), (''from'', JDict [(''id'', JInt 7)]),
       (''inline_message_id'', JStr ''abc''), (''data'', JStr ''1'')] ''entities'' = None
   \<and> UpdateChat_init
     (JDict [(''update_id'', JInt 3),
        (''callback_query'', JDict [(''id'', JStr ''77''), (''from'', JDict [(''id'', JInt 7)]),
           (''inline_message_id'', JStr ''abc''), (''data'', JStr ''1'')])]) None []
   = (Inl KeyError, [])"
  by (simp add: run_defs)

section \<open>Where the chat and message identifiers are read\<close>

text \<open>
  Claim C4. The payload has at least two top-level keys. When it is well formed, that is
  its kind payload has the shape \<open>payload_ok\<close>, the update is constructed; for the second
  key \<^verbatim>\<open>callback_query\<close> its \<open>chat_id\<close> is the nested \<^verbatim>\<open>message.chat.id\<close> and its
  \<open>message_id\<close> the nested \<^verbatim>\<open>message.message_id\<close> of the kind payload; for every other
  second key they are the \<^verbatim>\<open>chat.id\<close> and the \<^verbatim>\<open>message_id\<close> of the kind payload. A
  payload that is not well formed is not constructed.
\<close>

theorem chat_id_and_message_id_location:
  assumes "1 < length kvs" and "kvs ! 1 = (k, v)"
  shows "(payload_ok k v \<longrightarrow>
           (\<exists>c. UpdateChat_init (JDict kvs) token w = (Inr c, w)
              \<and> (k = ''callback_query'' \<longrightarrow>
                    chat_id c = nested v [''message'', ''chat'', ''id'']
                  \<and> message_id c = nested v [''message'', ''message_id''])
              \<and> (k \<noteq> ''callback_query'' \<longrightarrow>
                    chat_id c = nested v [''chat'', ''id'']
                  \<and> message_id c = nested v [''message_id''])))
       \<and> (\<not> payload_ok k v \<longrightarrow>
           (\<exists>e. UpdateChat_init (JDict kvs) token w = (Inl e, w)))"
proof (cases "payload_ok k v")
  case True
  from UpdateChat_init_payload_succeeds [OF assms True]
  obtain c where c: "UpdateChat_init (JDict kvs) token w = (Inr c, w)" by blast
  from UpdateChat_init_ids [OF c assms(2)] c True show ?thesis by blast
next
  case False
  with UpdateChat_init_raises [OF assms(2)] show ?thesis by blast
qed

text \<open>
  One payload of kind \<^verbatim>\<open>message\<close>, one of kind \<^verbatim>\<open>callback_query\<close>, and a
  \<^verbatim>\<open>callback_query\<close> without a \<^verbatim>\<open>message\<close> entry.
\<close>

theorem chat_id_and_message_id_location_witness:
  "1 < length [(''update_id'', JInt 1),
        (''message'', JDict [(''message_id'', JInt 5), (''chat'', JDict [(''id'', JInt 42)]),
           (''text'', JStr ''hello'')])]
   \<and> payload_ok ''message'' (JDict [(''message_id'', JInt 5), (''chat'', JDict [(''id'', JInt 42)]),
           (''text'', JStr ''hello'')])
   \<and> UpdateChat_init
     (JDict [(''update_id'', JInt 1),
        (''message'', JDict [(''message_id'', JInt 5), (''chat'', JDict [(''id'', JInt 42)]),
           (''text'', JStr ''hello'')])]) None []
   = (Inr \<lparr>bot_token = None, base_url = ''https://api.telegram.org/botNone'',
      update_type = ''message'', from_id = JNull, text' = JStr ''hello'',
      message_type = JStr ''text'', entities = JList [JDict []],
      chat_id = JInt 42, message_id = JInt 5\<rparr>, [])
   \<and> nested (JDict [(''message_id'', JInt 5), (''chat'', JDict [(''id'', JInt 42)]),
           (''text'', JStr ''hello'')]) [''chat'', ''id''] = JInt 42
   \<and> nested (JDict [(''message_id'', JInt 5), (''chat'', JDict [(''id'', JInt 42)]),
           (''text'', JStr ''hello'')]) [''message_id''] = JInt 5
   \<and> payload_ok ''callback_query'' (JDict [(''id'', JStr ''77''), (''from'', JDict [(''id'', JInt 7)]),
           (''message'', JDict [(''message_id'', JInt 6), (''chat'', JDict [(''id'', JInt 43)])]),
           (''data'', JStr ''1'')])
   \<and> UpdateChat_init
     (JDict [(''update_id'', JInt 2),
        (''callback_query'', JDict [(''id'', JStr ''77''), (''from'', JDict [(''id'', JInt 7)]),
           (''message'', JDict [(''message_id'', JInt 6), (''chat'', JDict [(''id'', JInt 43)])]),
           (''data'', JStr ''1'')])]) None []
   = (Inr \<lparr>bot_token = None, base_url = ''https://api.telegram.org/botNone'',
      update_type = ''callback_query'', from_id = JInt 7, text' = JNull,
      message_type = JStr ''text'', entities = JList [JDict []],
      chat_id = JInt 43, message_id = JInt 6\<rparr>, [])
   \<and> nested (JDict [(''id'', JStr ''77''), (''from'', JDict [(''id'', JInt 7)]),
           (''message'', JDict [(''message_id'', JInt 6), (''chat'', JDict [(''id'', JInt 43)])]),
           (''data'', JStr ''1'')]) [''message'', ''chat'', ''id''] = JInt 43
   \<and> nested (JDict [(''id'', JStr ''77''), (''from'', JDict [(''id'', JInt 7)]),
           (''message'', JDict [(''message_id'', JInt 6), (''chat'', JDict [(''id'', JInt 43)])]),
           (''data'', JStr ''1'')]) [''message'', ''message_id''] = JInt 6
   \<and> \<not> payload_ok ''callback_query'' (JDict [(''id'', JStr ''77''),
           (''from'', JDict [(''id'', JInt 7)]), (''inline_message_id'', JStr ''abc''),
           (''data'', JStr ''1'')])
   \<and> (\<exists>e. UpdateChat_init
     (JDict [(''update_id'', JInt 3),
        (''callback_query'', JDict [(''id'', JStr ''77''),
           (''from'', JDict [(''id'', JInt 7)]), (''inline_message_id'', JStr ''abc''),
           (''data'', JStr ''1'')])]) None [] = (Inl e, []))"
  using chat_id_and_message_id_location [where
     kvs = "[(''update_id'', JInt 1),
        (''message'', JDict [(''message_id'', JInt 5), (''chat'', JDict [(''id'', JInt 42)]),
           (''text'', JStr ''hello'')])]"
     and token = None and w = "[]" and k = "''message''"]
    chat_id_and_message_id_location [where
     kvs = "[(''update_id'', JInt 2),
        (''callback_query'', JDict [(''id'', JStr ''77''), (''from'', JDict [(''id'', JInt 7)]),
           (''message'', JDict [(''message_id'', JInt 6), (''chat'', JDict [(''id'', JInt 43)])]),
           (''data'', JStr ''1'')])]"
     and token = None and w = "[]" and k = "''callback_query''"]
    chat_id_and_message_id_location [where
     kvs = "[(''update_id'', JInt 3),
        (''callback_query'', JDict [(''id'', JStr ''77''),
           (''from'', JDict [(''id'', JInt 7)]), (''inline_message_id'', JStr ''abc''),
           (''data'', JStr ''1'')])]"
     and token = None and w = "[]" and k = "''callback_query''"]
  by (simp add: run_defs payload_ok_def callback_payload_ok_def kind_payload_ok_def
      message_ok_def is_dict_def)

section \<open>The handle of a sent message\<close>

text \<open>
  Claim C10. For every response of the shape \<open>response_ok\<close> a handle is constructed, and
  it holds in \<open>sent_text\<close> the value of \<open>message_id\<close>, the \<^verbatim>\<open>message_id\<close> entry of the
  second value of the response, not its text. Of any other response no handle is
  constructed.
\<close>

theorem sent_text_is_message_id:
  "(response_ok sent_msg \<longrightarrow>
      (\<exists>h. SentChat_init token sent_msg w = (Inr h, w)
         \<and> sent_text h = sent_message_id h
         \<and> (\<exists>kvs. sent_msg = JDict kvs
               \<and> sent_text h = nested (snd (kvs ! 1)) [''message_id''])))
   \<and> (\<not> response_ok sent_msg \<longrightarrow>
      (\<exists>e. SentChat_init token sent_msg w = (Inl e, w)))"
proof (cases "response_ok sent_msg")
  case True
  from SentChat_init_succeeds [OF True]
  obtain h where h: "SentChat_init token sent_msg w = (Inr h, w)" by blast
  from SentChat_init_fields [OF h]
  obtain kvs where u: "sent_msg = JDict kvs"
    and mi: "py_get (snd (kvs ! 1)) ''message_id'' JNull = Inr (sent_message_id h)"
    and st: "py_get (snd (kvs ! 1)) ''message_id'' JNull = Inr (sent_text h)"
    by auto
  from mi st have "sent_text h = sent_message_id h" by simp
  moreover have "sent_text h = nested (snd (kvs ! 1)) [''message_id'']"
    by (rule py_get_nested [OF st])
  ultimately show ?thesis using True h u by blast
next
  case False
  obtain r w' where r: "SentChat_init token sent_msg w = (r, w')"
    by (cases "SentChat_init token sent_msg w")
  with SentChat_init_net [of token sent_msg w] have w': "w' = w" by simp
  have "\<exists>e. r = Inl e"
  proof (cases r)
    case (Inr h)
    with r SentChat_init_response_ok False show ?thesis by blast
  qed simp
  with r w' False show ?thesis by blast
qed

text \<open>A response to a sent message, and an error response.\<close>

theorem sent_text_is_message_id_witness:
  "response_ok (JDict [(''ok'', JBool True),
        (''result'', JDict [(''message_id'', JInt 9), (''chat'', JDict [(''id'', JInt 42)]),
           (''text'', JStr ''hi'')])])
   \<and> SentChat_init (Some ''T'')
     (JDict [(''ok'', JBool True),
        (''result'', JDict [(''message_id'', JInt 9), (''chat'', JDict [(''id'', JInt 42)]),
           (''text'', JStr ''hi'')])]) []
   = (Inr \<lparr>bot_token = Some ''T'', base_url = ''https://api.telegram.org/botT'',
        sent_update_type = ''result'', sent_from_id = JNull, sent_chat_id = JInt 42,
        sent_message_id = JInt 9, sent_text = JInt 9\<rparr>, [])
   \<and> \<not> response_ok (JDict [(''ok'', JBool False), (''error_code'', JInt 404),
        (''description'', JStr ''Not Found'')])
   \<and> (\<exists>e. SentChat_init (Some ''T'')
     (JDict [(''ok'', JBool False), (''error_code'', JInt 404),
        (''description'', JStr ''Not Found'')]) [] = (Inl e, []))"
  using sent_text_is_message_id [where token = "Some ''T''" and w = "[]"
     and sent_msg = "JDict [(''ok'', JBool True),
        (''result'', JDict [(''message_id'', JInt 9), (''chat'', JDict [(''id'', JInt 42)]),
           (''text'', JStr ''hi'')])]"]
    sent_text_is_message_id [where token = "Some ''T''" and w = "[]"
     and sent_msg = "JDict [(''ok'', JBool False), (''error_code'', JInt 404),
        (''description'', JStr ''Not Found'')]"]
  by (simp add: run_defs response_ok_def sent_payload_ok_def is_dict_def)

end
